theory Spec2Isabelle
  imports Complex_Main "HOL-Library.Log_Nat" "HOL-Library.Word"
begin

section \<open>The numbers of the program\<close>

text \<open>
  A rating, a sum of ratings and an average are values of the source's type \<open>number\<close>: a
  binary64 floating-point value. A finite value is given by the rational it denotes; the
  negative zero, the not-a-number value and the two infinities are constructors of their
  own. \<open>Fin 0\<close> is the positive zero.
\<close>

datatype number = Fin rat | NegZero | NaN | PInf | NInf

definition signed_zero :: "bool \<Rightarrow> number" where
  "signed_zero neg = (if neg then NegZero else Fin 0)"

definition signed_inf :: "bool \<Rightarrow> number" where
  "signed_inf neg = (if neg then NInf else PInf)"

text \<open>The sign bit, and the rational a finite value denotes.\<close>

fun sign_bit :: "number \<Rightarrow> bool" where
  "sign_bit (Fin x) = (x < 0)"
| "sign_bit NegZero = True"
| "sign_bit NInf = True"
| "sign_bit PInf = False"
| "sign_bit NaN = False"

fun val :: "number \<Rightarrow> rat" where
  "val (Fin x) = x"
| "val _ = 0"

definition is_zero :: "number \<Rightarrow> bool" where
  "is_zero n = (n = Fin 0 \<or> n = NegZero)"

definition is_inf :: "number \<Rightarrow> bool" where
  "is_inf n = (n = PInf \<or> n = NInf)"

subsection \<open>Comparison\<close>

text \<open>
  The operators \<open><\<close>, \<open>>\<close> and \<open><=\<close> of the source language on numbers: every comparison
  with not-a-number is false, the two zeros are equal, and the infinities lie outside all
  finite values.
\<close>

fun num_key :: "number \<Rightarrow> (int \<times> rat) option" where
  "num_key (Fin x) = Some (0, x)"
| "num_key NegZero = Some (0, 0)"
| "num_key NaN = None"
| "num_key PInf = Some (1, 0)"
| "num_key NInf = Some (- 1, 0)"

definition num_lt :: "number \<Rightarrow> number \<Rightarrow> bool" where
  "num_lt a b =
     (case (num_key a, num_key b) of
        (Some (i, x), Some (j, y)) \<Rightarrow> i < j \<or> (i = j \<and> x < y)
      | _ \<Rightarrow> False)"

definition num_gt :: "number \<Rightarrow> number \<Rightarrow> bool" where
  "num_gt a b = num_lt b a"

definition num_le :: "number \<Rightarrow> number \<Rightarrow> bool" where
  "num_le a b =
     (case (num_key a, num_key b) of
        (Some (i, x), Some (j, y)) \<Rightarrow> i < j \<or> (i = j \<and> x \<le> y)
      | _ \<Rightarrow> False)"

subsection \<open>Rounding to binary64\<close>

text \<open>
  Arithmetic on numbers computes the exact result and rounds it to the nearest binary64
  value, a tie going to the value with the even significand. A positive rational \<open>a\<close>
  with \<open>2 ^ e \<le> a < 2 ^ (e + 1)\<close> is rounded to a multiple of \<open>2 ^ (e - 52)\<close>, the
  exponent \<open>e\<close> being at least \<open>- 1022\<close> (below lie the subnormal values, all multiples of
  \<open>2 ^ (- 1074)\<close>); a result of \<open>2 ^ 1024\<close> or more is an infinity.
\<close>

definition pow2 :: "int \<Rightarrow> rat" where
  "pow2 e = (if 0 \<le> e then of_int (2 ^ nat e) else 1 / of_int (2 ^ nat (- e)))"

definition flog2 :: "rat \<Rightarrow> int" where
  "flog2 a = (if 1 \<le> a then bitlen \<lfloor>a\<rfloor> - 1 else - bitlen (\<lceil>1 / a\<rceil> - 1))"

definition round_half_even :: "rat \<Rightarrow> int" where
  "round_half_even y =
     (let f = \<lfloor>y\<rfloor>; d = y - of_int f
      in if d < 1 / 2 then f else if 1 / 2 < d then f + 1 else if even f then f else f + 1)"

definition rnd64 :: "rat \<Rightarrow> number" where
  "rnd64 x =
     (let a = \<bar>x\<bar>;
          e = max (flog2 a) (- 1022);
          q = pow2 (e - 52);
          m = round_half_even (a / q);
          r = of_int m * q
      in if pow2 1024 \<le> r then signed_inf (x < 0)
         else if m = 0 then signed_zero (x < 0)
         else Fin (if x < 0 then - r else r))"

subsection \<open>Addition and division\<close>

text \<open>The operators \<open>+\<close> and \<open>/\<close> of the source language on two numbers.\<close>

definition num_add :: "number \<Rightarrow> number \<Rightarrow> number" where
  "num_add a b =
     (if a = NaN \<or> b = NaN then NaN
      else if is_inf a then (if is_inf b \<and> a \<noteq> b then NaN else a)
      else if is_inf b then b
      else if is_zero a \<and> is_zero b then signed_zero (sign_bit a \<and> sign_bit b)
      else if val a + val b = 0 then Fin 0
      else rnd64 (val a + val b))"

definition num_div :: "number \<Rightarrow> number \<Rightarrow> number" where
  "num_div a b =
     (if a = NaN \<or> b = NaN then NaN
      else let neg = (sign_bit a \<noteq> sign_bit b)
        in if is_inf a then (if is_inf b then NaN else signed_inf neg)
           else if is_inf b then signed_zero neg
           else if is_zero b then (if is_zero a then NaN else signed_inf neg)
           else if is_zero a then signed_zero neg
           else rnd64 (val a / val b))"

subsection \<open>Printing with a fixed number of decimals, and reading back\<close>

text \<open>
  \<open>toFixed\<close> prints a number with \<open>f\<close> digits after the point. The string it returns is
  given here by what it spells: \<open>Decimal s n f\<close> is the sign \<open>s\<close> followed by the digits of
  the integer \<open>n\<close> with the point before the last \<open>f\<close> of them, and \<open>Repr x\<close> is the
  language's own spelling of the number \<open>x\<close>, which \<open>toFixed\<close> returns for a value that
  is not finite or is \<open>10 ^ 21\<close> or more. The integer \<open>n\<close> is the one for which
  \<open>n / 10 ^ f\<close> is nearest to the absolute value; of two such, the larger.
\<close>

datatype numeric_string = Decimal bool nat nat | Repr number

definition toFixed :: "number \<Rightarrow> nat \<Rightarrow> numeric_string" where
  "toFixed x f =
     (case x of
        Fin v \<Rightarrow>
          if 10 ^ 21 \<le> \<bar>v\<bar> then Repr x
          else Decimal (v < 0) (nat \<lfloor>\<bar>v\<bar> * 10 ^ f + 1 / 2\<rfloor>) f
      | NegZero \<Rightarrow> Decimal False 0 f
      | _ \<Rightarrow> Repr x)"

text \<open>
  \<open>parseFloat\<close> reads such a string back: the number nearest to the decimal it spells,
  a zero keeping the sign written before it.
\<close>

definition parseFloat :: "numeric_string \<Rightarrow> number" where
  "parseFloat s =
     (case s of
        Decimal neg n f \<Rightarrow>
          if n = 0 then signed_zero neg
          else rnd64 ((if neg then - 1 else 1) * of_nat n / 10 ^ f)
      | Repr x \<Rightarrow> x)"

section \<open>Products and the store\<close>

text \<open>
  The payload of a request and the stored record. A product has the three fields of a
  payload and four more, so the record of the product extends the one of the payload. The
  field \<open>id\<close> of the source is \<open>id_field\<close> here.
\<close>

record ProductPayload =
  name :: string
  description :: string
  URL :: string

record Product = ProductPayload +
  id_field :: string
  Ratings :: "number list"
  created_at :: "64 word"
  updated_at :: "64 word option"

text \<open>
  Modelled from the spec: the store \<open>productStorage\<close> is a map of the platform's library,
  whose code is not part of the repository. It is an ordered map from string keys to
  products, with a point lookup that has no side effect, an unconditional insertion
  under a key, and a removal that deletes the key if present and gives back what was
  stored.
\<close>

type_synonym store = "string \<rightharpoonup> Product"

definition store_get :: "string \<Rightarrow> store \<Rightarrow> Product option" where
  "store_get k st = st k"

definition store_insert :: "string \<Rightarrow> Product \<Rightarrow> store \<Rightarrow> store" where
  "store_insert k p st = st(k \<mapsto> p)"

definition store_remove :: "string \<Rightarrow> store \<Rightarrow> Product option \<times> store" where
  "store_remove k st = (st k, st(k := None))"

section \<open>The operations\<close>

text \<open>
  A call ends in one of four ways: it returns \<open>Result.Ok\<close> with a value, it returns
  \<open>Result.Err\<close> with a message, an error is thrown with a message and nothing is returned,
  or the call does not return at all because a recursion in it never ends (the engine then
  ends the call with an error of its own when the call stack is used up). Every operation
  takes the store and gives back the store as the call leaves it, together with the way the
  call ended.
\<close>

datatype 'a outcome = Ok 'a | Err string | Thrown string | NoReturn

text \<open>
  The last lines of the source replace the global \<open>crypto\<close> by an object whose only
  function, \<open>getRandomValues\<close>, calls \<open>crypto.getRandomValues\<close> on its argument. When it
  runs, \<open>crypto\<close> is that object, so the function calls itself. The result \<open>None\<close> of the
  model is a call that does not return.
\<close>

partial_function (option) getRandomValues :: "8 word list \<Rightarrow> 8 word list option" where
  "getRandomValues array = getRandomValues array"

text \<open>
  Modelled from the spec: the identifier generator \<open>uuidv4\<close> is a function of a library
  outside the repository, a generator of random identifiers. It has 16 bytes filled by
  \<open>crypto.getRandomValues\<close> and spells them as a string; how the library spells them is
  the argument \<open>spell\<close>.
\<close>

definition uuidv4 :: "(8 word list \<Rightarrow> string) \<Rightarrow> string option" where
  "uuidv4 spell = map_option spell (getRandomValues (replicate 16 0))"

definition validateRating :: "number \<Rightarrow> string option" where
  "validateRating rating =
     (if num_lt rating (Fin 1) \<or> num_gt rating (Fin 5)
      then Some ''Rating should be an integer between 1 and 5.''
      else None)"

definition getProduct :: "string \<Rightarrow> store \<Rightarrow> Product outcome \<times> store" where
  "getProduct i st =
     (case store_get i st of
        None \<Rightarrow> (Err (''Product with id='' @ i @ '' not found''), st)
      | Some product \<Rightarrow> (Ok product, st))"

text \<open>
  \<open>addProduct\<close> takes the time of the call from its environment: it is the argument \<open>now\<close>.
  A string is falsy when it is empty. The new record is built field by field, the
  identifier first, so a call of \<open>uuidv4\<close> that does not return ends \<open>addProduct\<close> before
  anything is stored.
\<close>

definition addProduct ::
  "(8 word list \<Rightarrow> string) \<Rightarrow> 64 word \<Rightarrow> ProductPayload \<Rightarrow> store
     \<Rightarrow> Product outcome \<times> store" where
  "addProduct spell now payload st =
     (if name payload = [] \<or> description payload = [] \<or> URL payload = []
      then (Err ''Missing required fields'', st)
      else
        (case uuidv4 spell of
           None \<Rightarrow> (NoReturn, st)
         | Some uid \<Rightarrow>
             let product = \<lparr>name = name payload, description = description payload,
                            URL = URL payload, id_field = uid, Ratings = [],
                            created_at = now, updated_at = None\<rparr>
             in (Ok product, store_insert (id_field product) product st)))"

definition calculateAverageRating :: "string \<Rightarrow> store \<Rightarrow> number outcome \<times> store" where
  "calculateAverageRating i st =
     (case store_get i st of
        None \<Rightarrow> (Err (''Product with id='' @ i @ '' not found''), st)
      | Some product \<Rightarrow>
          if length (Ratings product) = 0 then (Ok (Fin 0), st)
          else
            let sum = foldl num_add (Fin 0) (Ratings product);
                averageRating =
                  parseFloat
                    (toFixed (num_div sum (Fin (of_nat (length (Ratings product))))) 2)
            in (Ok averageRating, st))"

definition rateProduct :: "string \<Rightarrow> number \<Rightarrow> store \<Rightarrow> Product outcome \<times> store" where
  "rateProduct i rating st =
     (case store_get i st of
        None \<Rightarrow> (Err ''Product not found.'', st)
      | Some product \<Rightarrow>
          (case validateRating rating of
             Some msg \<Rightarrow> (Thrown msg, st)
           | None \<Rightarrow>
               let updatedProduct = product\<lparr>Ratings := Ratings product @ [rating]\<rparr>
               in (Ok updatedProduct, store_insert i updatedProduct st)))"

definition updateProduct ::
  "64 word \<Rightarrow> string \<Rightarrow> ProductPayload \<Rightarrow> store \<Rightarrow> Product outcome \<times> store" where
  "updateProduct now i payload st =
     (case store_get i st of
        None \<Rightarrow> (Err (''Product with id='' @ i @ '' not found''), st)
      | Some product \<Rightarrow>
          let updatedProduct =
                product\<lparr>name := name payload, description := description payload,
                        URL := URL payload, updated_at := Some now\<rparr>
          in (Ok updatedProduct, store_insert (id_field product) updatedProduct st))"

definition deleteProduct :: "string \<Rightarrow> store \<Rightarrow> Product outcome \<times> store" where
  "deleteProduct i st =
     (let (deletedProduct, st') = store_remove i st
      in case deletedProduct of
           None \<Rightarrow> (Err (''Product with id='' @ i @ '' not found''), st')
         | Some product \<Rightarrow> (Ok product, st'))"

text \<open>
  The stores the program can be in: the empty one, and every store a call of an operation
  that writes leaves behind, whatever its arguments.
\<close>

inductive reachable :: "store \<Rightarrow> bool" where
  init: "reachable Map.empty"
| add: "reachable st \<Longrightarrow> reachable (snd (addProduct spell now payload st))"
| rate: "reachable st \<Longrightarrow> reachable (snd (rateProduct i rating st))"
| update: "reachable st \<Longrightarrow> reachable (snd (updateProduct now i payload st))"
| delete: "reachable st \<Longrightarrow> reachable (snd (deleteProduct i st))"

text \<open>
  What every write of the program keeps: a product is stored under its own \<open>id\<close>.
\<close>

definition keyed_by_id :: "store \<Rightarrow> bool" where
  "keyed_by_id st = (\<forall>k p. st k = Some p \<longrightarrow> id_field p = k)"

text \<open>
  What the data model asks of a rating: to be one of the integers 1 to 5.
\<close>

definition valid_rating :: "number \<Rightarrow> bool" where
  "valid_rating r = (r \<in> {Fin 1, Fin 2, Fin 3, Fin 4, Fin 5})"

text \<open>
  The words of the specification for the average. The arithmetic mean of ratings is the
  sum of their values divided by their number. A mean is rounded to 2 decimal places by
  taking an integer number \<open>k\<close> of hundredths nearest to it: one integer, or either of
  two when the mean lies half-way between them.
\<close>

definition arithmetic_mean :: "number list \<Rightarrow> rat" where
  "arithmetic_mean rs = sum_list (map val rs) / of_nat (length rs)"

definition nearest_hundredth :: "rat \<Rightarrow> int \<Rightarrow> bool" where
  "nearest_hundredth m k = (\<bar>100 * m - of_int k\<bar> \<le> 1 / 2)"

text \<open>
  A product and two payloads to run the operations on, and a way to spell 16 bytes: one
  character for each byte.
\<close>

definition spell_bytes :: "8 word list \<Rightarrow> string" where
  "spell_bytes bytes = map (\<lambda>b. char_of (unat b)) bytes"

definition widget :: Product where
  "widget = \<lparr>name = ''Widget'', description = ''A small widget'', URL = ''http://w.example'',
              id_field = ''a'', Ratings = [Fin 4], created_at = 7, updated_at = None\<rparr>"

definition widget_payload :: ProductPayload where
  "widget_payload = \<lparr>name = ''Widget'', description = ''A small widget'',
                      URL = ''http://w.example''\<rparr>"

definition gadget_payload :: ProductPayload where
  "gadget_payload = \<lparr>name = ''Gadget'', description = [], URL = ''http://g.example''\<rparr>"

section \<open>Facts about the comparisons and the store\<close>

lemmas op_defs = getProduct_def rateProduct_def calculateAverageRating_def
  updateProduct_def deleteProduct_def addProduct_def store_get_def store_insert_def
  store_remove_def

lemmas sample_defs = widget_def widget_payload_def gadget_payload_def

lemma validateRating_cases:
  "validateRating rating =
     (if (case rating of Fin x \<Rightarrow> x < 1 \<or> 5 < x | NegZero \<Rightarrow> True | NaN \<Rightarrow> False
          | PInf \<Rightarrow> True | NInf \<Rightarrow> True)
      then Some ''Rating should be an integer between 1 and 5.'' else None)"
  by (cases rating) (simp_all add: validateRating_def num_lt_def num_gt_def)

lemma num_le_1_iff:
  "num_le (Fin 1) r \<longleftrightarrow> (case r of Fin x \<Rightarrow> 1 \<le> x | PInf \<Rightarrow> True | _ \<Rightarrow> False)"
  by (cases r) (simp_all add: num_le_def)

lemma num_le_5_iff:
  "num_le r (Fin 5) \<longleftrightarrow>
     (case r of Fin x \<Rightarrow> x \<le> 5 | NegZero \<Rightarrow> True | NInf \<Rightarrow> True | _ \<Rightarrow> False)"
  by (cases r) (simp_all add: num_le_def)

text \<open>The function that calls itself does not return, and so neither does \<open>uuidv4\<close>.\<close>

lemma getRandomValues_never_returns: "getRandomValues array = None"
proof (cases "getRandomValues array")
  case None
  then show ?thesis .
next
  case (Some filled)
  have False
  proof (rule getRandomValues.raw_induct [where P = "\<lambda>_ _. False", OF _ Some])
    fix f :: "8 word list \<Rightarrow> 8 word list option" and array filled
    assume "\<And>x y. f x = Some y \<Longrightarrow> False" and "f array = Some filled"
    then show False
      by blast
  qed
  then show ?thesis ..
qed

lemma uuidv4_never_returns: "uuidv4 spell = None"
  by (simp add: uuidv4_def getRandomValues_never_returns)

text \<open>
  So \<open>addProduct\<close> with a payload that has all three fields does not return, and stores
  nothing.
\<close>

lemma addProduct_never_returns:
  assumes "name payload \<noteq> []" and "description payload \<noteq> []" and "URL payload \<noteq> []"
  shows "addProduct spell now payload st = (NoReturn, st)"
  using assms by (simp add: addProduct_def uuidv4_never_returns)

text \<open>
  Every operation keeps products stored under their own \<open>id\<close>: \<open>addProduct\<close> and
  \<open>updateProduct\<close> write under the \<open>id\<close> of the record, and \<open>rateProduct\<close> writes back
  under the key it has read from.
\<close>

lemma addProduct_keyed_by_id:
  "keyed_by_id st \<Longrightarrow> keyed_by_id (snd (addProduct spell now payload st))"
  by (auto simp: keyed_by_id_def addProduct_def store_insert_def Let_def
      split: if_splits option.splits)

lemma rateProduct_keyed_by_id:
  "keyed_by_id st \<Longrightarrow> keyed_by_id (snd (rateProduct i rating st))"
  by (auto simp: keyed_by_id_def rateProduct_def store_get_def store_insert_def Let_def
      split: if_splits option.splits)

lemma updateProduct_keyed_by_id:
  "keyed_by_id st \<Longrightarrow> keyed_by_id (snd (updateProduct now i payload st))"
  by (auto simp: keyed_by_id_def updateProduct_def store_get_def store_insert_def Let_def
      split: if_splits option.splits)

lemma deleteProduct_keyed_by_id:
  "keyed_by_id st \<Longrightarrow> keyed_by_id (snd (deleteProduct i st))"
  by (auto simp: keyed_by_id_def deleteProduct_def store_remove_def
      split: if_splits option.splits)

lemma reachable_keyed_by_id: "reachable st \<Longrightarrow> keyed_by_id st"
proof (induction rule: reachable.induct)
  case init
  show ?case by (simp add: keyed_by_id_def)
next
  case (add st spell now payload)
  then show ?case by (simp add: addProduct_keyed_by_id)
next
  case (rate st i rating)
  then show ?case by (simp add: rateProduct_keyed_by_id)
next
  case (update st now i payload)
  then show ?case by (simp add: updateProduct_keyed_by_id)
next
  case (delete st i)
  then show ?case by (simp add: deleteProduct_keyed_by_id)
qed

text \<open>
  As \<open>addProduct\<close> never stores anything, the only store the program can be in is the
  empty one.
\<close>

lemma reachable_is_empty: "reachable st \<Longrightarrow> st = Map.empty"
proof (induction rule: reachable.induct)
  case init
  show ?case by simp
next
  case (add st spell now payload)
  then show ?case by (simp add: addProduct_def uuidv4_never_returns)
next
  case (rate st i rating)
  then show ?case by (simp add: rateProduct_def store_get_def)
next
  case (update st now i payload)
  then show ?case by (simp add: updateProduct_def store_get_def)
next
  case (delete st i)
  then show ?case by (simp add: deleteProduct_def store_remove_def)
qed

text \<open>
  A rating that compares below 1 or above 5 ends the call of \<open>rateProduct\<close> with the thrown
  error, before anything is written.
\<close>

lemma rateProduct_throws_before_write:
  assumes "st i = Some product" and "num_lt rating (Fin 1) \<or> num_gt rating (Fin 5)"
  shows "rateProduct i rating st =
           (Thrown ''Rating should be an integer between 1 and 5.'', st)"
  using assms by (simp add: rateProduct_def store_get_def validateRating_def)

text \<open>
  What the check of \<open>rateProduct\<close> does keep out of a store: a rating that compares below
  1 or above 5. If no rating of a store does, none does after the call.
\<close>

lemma rateProduct_keeps_ratings_not_outside:
  assumes "\<forall>k p. st k = Some p \<longrightarrow> (\<forall>r \<in> set (Ratings p). \<not> num_lt r (Fin 1) \<and> \<not> num_gt r (Fin 5))"
    and "snd (rateProduct i rating st) k = Some p" and "r \<in> set (Ratings p)"
  shows "\<not> num_lt r (Fin 1) \<and> \<not> num_gt r (Fin 5)"
proof (cases "st i")
  case None
  then have "snd (rateProduct i rating st) = st"
    by (simp add: rateProduct_def store_get_def)
  with assms show ?thesis
    by auto
next
  case (Some product)
  show ?thesis
  proof (cases "num_lt rating (Fin 1) \<or> num_gt rating (Fin 5)")
    case True
    with Some have "snd (rateProduct i rating st) = st"
      by (simp add: rateProduct_throws_before_write)
    with assms show ?thesis
      by auto
  next
    case False
    with Some have after: "snd (rateProduct i rating st)
        = st(i \<mapsto> product\<lparr>Ratings := Ratings product @ [rating]\<rparr>)"
      by (simp add: rateProduct_def store_get_def store_insert_def validateRating_def Let_def)
    show ?thesis
    proof (cases "k = i")
      case True
      with after assms(2) have "p = product\<lparr>Ratings := Ratings product @ [rating]\<rparr>"
        by simp
      with assms(3) have "r \<in> set (Ratings product) \<or> r = rating"
        by auto
      with assms(1) Some False show ?thesis
        by auto
    next
      case False
      with after assms(2) have "st k = Some p"
        by simp
      with assms(1,3) show ?thesis
        by auto
    qed
  qed
qed

section \<open>Facts about rounding and the average\<close>

text \<open>Rounding to an integer leaves an integer as it is and moves nothing by more than a half.\<close>

lemma round_half_even_of_int: "round_half_even (of_int j) = j"
  by (simp add: round_half_even_def)

lemma round_half_even_close: "\<bar>of_int (round_half_even y) - y\<bar> \<le> 1 / 2"
proof -
  have "of_int \<lfloor>y\<rfloor> \<le> y" "y < of_int \<lfloor>y\<rfloor> + 1"
    by linarith+
  then show ?thesis
    by (auto simp: round_half_even_def Let_def)
qed

text \<open>The exponent of a value from 1 up to a power of two.\<close>

lemma flog2_range:
  assumes "1 \<le> a" and "a < 2 ^ w"
  shows "0 \<le> flog2 a \<and> flog2 a < int w"
proof -
  have lo: "1 \<le> \<lfloor>a\<rfloor>"
    using assms(1) by linarith
  have "of_int \<lfloor>a\<rfloor> \<le> a"
    by linarith
  with assms(2) have "(of_int \<lfloor>a\<rfloor> :: rat) < 2 ^ w"
    by linarith
  then have "(of_int \<lfloor>a\<rfloor> :: rat) < of_int (2 ^ w)"
    by simp
  then have hi: "\<lfloor>a\<rfloor> < 2 ^ w"
    by (simp only: of_int_less_iff)
  have "1 \<le> bitlen \<lfloor>a\<rfloor>"
    using lo by (simp add: bitlen_ge_iff_power)
  moreover have "bitlen \<lfloor>a\<rfloor> \<le> int w"
    using hi by (simp add: bitlen_le_iff_power)
  ultimately show ?thesis
    using assms(1) by (simp add: flog2_def)
qed

lemma pow2_neg: "0 \<le> n \<Longrightarrow> n \<le> 52 \<Longrightarrow> pow2 (n - 52) = 1 / 2 ^ nat (52 - n)"
  by (auto simp: pow2_def)

text \<open>
  A value from 1 up to \<open>2 ^ 53\<close> is rounded to a multiple of \<open>1 / 2 ^ n\<close> for some
  \<open>n\<close> up to 52, and of \<open>1 / 2 ^ 50\<close> or finer below 8.
\<close>

lemma rnd64_normal:
  assumes "1 \<le> x" and "x < 2 ^ 53"
  shows "\<exists>n\<le>52. rnd64 x = Fin (of_int (round_half_even (x * 2 ^ n)) / 2 ^ n)
            \<and> 0 < round_half_even (x * 2 ^ n) \<and> (x < 8 \<longrightarrow> 50 \<le> n)"
proof -
  define e where "e = flog2 x"
  define n where "n = nat (52 - e)"
  have e: "0 \<le> e" "e < 53"
    using flog2_range [OF assms] by (simp_all add: e_def)
  have e8: "x < 8 \<Longrightarrow> e < 3"
    using flog2_range [OF assms(1), of 3] by (simp add: e_def)
  have n: "n \<le> 52"
    using e by (simp add: n_def)
  have q: "pow2 (e - 52) = 1 / 2 ^ n"
    using e by (simp add: pow2_neg n_def)
  define m where "m = round_half_even (x * 2 ^ n)"
  have close: "\<bar>of_int m - x * 2 ^ n\<bar> \<le> 1 / 2"
    unfolding m_def by (rule round_half_even_close)
  have "(1::rat) \<le> 2 ^ n"
    by simp
  with assms(1) have big: "1 \<le> x * 2 ^ n"
    by (metis mult_mono' mult_1 zero_le_one)
  with close have "1 / 2 \<le> (of_int m :: rat)"
    by linarith
  then have mpos: "0 < m"
    by linarith
  have "(of_int m :: rat) \<le> x * 2 ^ n + 1 / 2"
    using close by linarith
  then have "(of_int m :: rat) / 2 ^ n \<le> (x * 2 ^ n + 1 / 2) / 2 ^ n"
    by (simp add: divide_right_mono)
  also have "\<dots> = x + (1 / 2) / 2 ^ n"
    by (simp add: add_divide_distrib)
  also have "\<dots> \<le> x + 1 / 2"
    by (simp add: divide_le_eq_1)
  finally have "(of_int m :: rat) / 2 ^ n \<le> x + 1 / 2" .
  moreover have "(2::rat) ^ 54 = 2 ^ 53 + 2 ^ 53" "(1::rat) \<le> 2 ^ 53"
    by simp_all
  ultimately have small: "(of_int m :: rat) / 2 ^ n < 2 ^ 54"
    using assms(2) by linarith
  have "pow2 1024 = 2 ^ 54 * 2 ^ 970"
    by (simp add: pow2_def)
  then have "(2::rat) ^ 54 \<le> pow2 1024"
    by simp
  with small have no_overflow: "\<not> pow2 1024 \<le> of_int m / 2 ^ n"
    by linarith
  have "rnd64 x = Fin (of_int m / 2 ^ n)"
    using assms(1) e mpos no_overflow q
    by (simp add: rnd64_def Let_def e_def [symmetric] max_def m_def [symmetric])
  moreover have "x < 8 \<longrightarrow> 50 \<le> n"
    using e8 e by (auto simp: n_def)
  ultimately show ?thesis
    using n mpos unfolding m_def by blast
qed


text \<open>Integers below \<open>2 ^ 53\<close> are binary64 values: rounding leaves them as they are.\<close>

lemma rnd64_exact_int:
  assumes "1 \<le> z" and "z < 2 ^ 53"
  shows "rnd64 (of_int z) = Fin (of_int z)"
proof -
  have "(1::rat) \<le> of_int z" "(of_int z :: rat) < 2 ^ 53"
    using assms by (simp_all add: of_int_less_numeral_power_cancel_iff)
  then obtain n where
    n: "rnd64 (of_int z) = Fin (of_int (round_half_even (of_int z * 2 ^ n)) / 2 ^ n)"
    using rnd64_normal by blast
  have "(of_int z :: rat) * 2 ^ n = of_int (z * 2 ^ n)"
    by simp
  then have "round_half_even (of_int z * 2 ^ n) = z * 2 ^ n"
    by (simp only: round_half_even_of_int)
  with n show ?thesis
    by simp
qed

text \<open>From 1 to 8, rounding moves a value by \<open>1 / 2 ^ 51\<close> at most.\<close>

lemma rnd64_close:
  assumes "1 \<le> x" and "x < 8"
  shows "\<exists>d. rnd64 x = Fin d \<and> \<bar>d - x\<bar> \<le> 1 / 2 ^ 51"
proof -
  have "x < 2 ^ 53"
    using assms(2) by simp
  with assms obtain n where
    n: "rnd64 x = Fin (of_int (round_half_even (x * 2 ^ n)) / 2 ^ n)" "50 \<le> n"
    using rnd64_normal by blast
  define m where "m = round_half_even (x * 2 ^ n)"
  have "\<bar>of_int m - x * 2 ^ n\<bar> \<le> 1 / 2"
    unfolding m_def by (rule round_half_even_close)
  then have "\<bar>of_int m - x * 2 ^ n\<bar> / 2 ^ n \<le> (1 / 2) / 2 ^ n"
    by (rule divide_right_mono) simp
  moreover have "\<bar>of_int m - x * 2 ^ n\<bar> / 2 ^ n = \<bar>of_int m / 2 ^ n - x\<bar>"
  proof -
    have "(of_int m - x * 2 ^ n) / 2 ^ n = of_int m / 2 ^ n - x"
      by (simp add: diff_divide_distrib)
    then have "\<bar>of_int m / 2 ^ n - x\<bar> = \<bar>(of_int m - x * 2 ^ n) / 2 ^ n\<bar>"
      by simp
    also have "\<dots> = \<bar>of_int m - x * 2 ^ n\<bar> / 2 ^ n"
      by (simp add: abs_divide)
    finally show ?thesis
      by simp
  qed
  moreover have "(1 / 2) / (2::rat) ^ n \<le> 1 / 2 ^ 51"
  proof -
    have "(2::rat) ^ 51 \<le> 2 ^ Suc n"
      using n(2) by (intro power_increasing) simp_all
    then have "1 / (2::rat) ^ Suc n \<le> 1 / 2 ^ 51"
      by (intro divide_left_mono) simp_all
    then show ?thesis
      by simp
  qed
  ultimately have "\<bar>of_int m / 2 ^ n - x\<bar> \<le> 1 / 2 ^ 51"
    by linarith
  with n(1) show ?thesis
    unfolding m_def by blast
qed

text \<open>The sum of valid ratings is computed without any rounding error.\<close>

lemma valid_rating_int:
  assumes "valid_rating r"
  shows "\<exists>k. r = Fin (of_int k) \<and> 1 \<le> k \<and> k \<le> 5"
proof -
  have "r = Fin (of_int 1) \<or> r = Fin (of_int 2) \<or> r = Fin (of_int 3) \<or> r = Fin (of_int 4)
      \<or> r = Fin (of_int 5)"
    using assms by (auto simp: valid_rating_def)
  then show ?thesis
    by fastforce
qed

lemma num_add_exact_int:
  assumes "0 \<le> a" and "1 \<le> k" and "a + k < 2 ^ 53"
  shows "num_add (Fin (of_int a)) (Fin (of_int k)) = Fin (of_int (a + k))"
proof -
  have "rnd64 (of_int (a + k)) = Fin (of_int (a + k))"
    using assms by (intro rnd64_exact_int) simp_all
  moreover have "(of_int a :: rat) + of_int k \<noteq> 0"
    using assms by (metis add_nonneg_pos not_less_iff_gr_or_eq of_int_0_less_iff of_int_add
        zero_less_one less_le_trans)
  moreover have "k \<noteq> 0"
    using assms(2) by simp
  ultimately show ?thesis
    by (simp add: num_add_def is_inf_def is_zero_def)
qed

lemma foldl_num_add_exact:
  assumes "\<forall>r \<in> set rs. valid_rating r" and "0 \<le> a" and "a + 5 * int (length rs) < 2 ^ 53"
  shows "\<exists>s. int (length rs) \<le> s \<and> s \<le> 5 * int (length rs)
            \<and> sum_list (map val rs) = of_int s
            \<and> foldl num_add (Fin (of_int a)) rs = Fin (of_int (a + s))"
  using assms
proof (induction rs arbitrary: a)
  case Nil
  then show ?case by simp
next
  case (Cons r rs)
  from Cons.prems(1) obtain k where k: "r = Fin (of_int k)" "1 \<le> k" "k \<le> 5"
    using valid_rating_int by auto
  have step: "num_add (Fin (of_int a)) r = Fin (of_int (a + k))"
    unfolding k(1) using Cons.prems(2,3) k(2,3) by (intro num_add_exact_int) simp_all
  have "\<exists>s. int (length rs) \<le> s \<and> s \<le> 5 * int (length rs)
            \<and> sum_list (map val rs) = of_int s
            \<and> foldl num_add (Fin (of_int (a + k))) rs = Fin (of_int (a + k + s))"
    using Cons.prems k(2,3) by (intro Cons.IH) simp_all
  then obtain s where s: "int (length rs) \<le> s" "s \<le> 5 * int (length rs)"
    "sum_list (map val rs) = of_int s"
    "foldl num_add (Fin (of_int (a + k))) rs = Fin (of_int (a + k + s))"
    by blast
  have "int (length (r # rs)) \<le> k + s" "k + s \<le> 5 * int (length (r # rs))"
    using s(1,2) k(2,3) by simp_all
  moreover have "sum_list (map val (r # rs)) = of_int (k + s)"
    using s(3) k(1) by simp
  moreover have "foldl num_add (Fin (of_int a)) (r # rs) = Fin (of_int (a + (k + s)))"
    using s(4) step by (simp add: add.assoc)
  ultimately show ?case
    by blast
qed

text \<open>
  The integer \<open>toFixed\<close> picks for a value within \<open>1 / 2 ^ 51\<close> of a quotient \<open>s / n\<close> of
  integers is a nearest integer to \<open>100 * s / n\<close> itself: a quotient with a denominator
  below \<open>2 ^ 32\<close> that is not half-way between two hundredths is too far from the
  half-way point for the rounding error to reach across.
\<close>

lemma hundredth_of_close_quotient:
  fixes s n K :: int and d :: rat
  assumes n: "1 \<le> n" "n < 2 ^ 32"
    and close: "\<bar>d - of_int s / of_int n\<bar> \<le> 1 / 2 ^ 51"
    and K: "K = \<lfloor>d * 100 + 1 / 2\<rfloor>"
  shows "\<bar>100 * (of_int s / of_int n :: rat) - of_int K\<bar> \<le> 1 / 2"
proof -
  define x :: rat where "x = of_int s / of_int n"
  define N :: rat where "N = of_int n"
  define t where "t = 100 * x - of_int K"
  define c :: rat where "c = 1 / 2 ^ 51"
  have Npos: "0 < N" and Nsmall: "N < 2 ^ 32"
    using n by (simp_all add: N_def of_int_less_numeral_power_cancel_iff)
  have "of_int K \<le> d * 100 + 1 / 2" "d * 100 + 1 / 2 < of_int K + 1"
    unfolding K by linarith+
  moreover have "\<bar>d - x\<bar> \<le> c"
    using close by (simp add: x_def c_def)
  ultimately have "\<bar>t\<bar> \<le> 1 / 2 + 100 * c"
    unfolding t_def by linarith
  then have t: "\<bar>t\<bar> \<le> 1 / 2 + 100 / 2 ^ 51"
    by (simp add: c_def)
  have "N * x = of_int s"
    using Npos by (simp add: x_def N_def)
  then have Nt: "N * t = of_int (100 * s - K * n)"
    by (simp add: t_def N_def algebra_simps)
  have "\<bar>N * t\<bar> = N * \<bar>t\<bar>"
    using Npos by (simp add: abs_mult)
  also have "\<dots> \<le> N * (1 / 2 + 100 / 2 ^ 51)"
    using t Npos by (intro mult_left_mono) simp_all
  finally have "2 * \<bar>N * t\<bar> \<le> N + N * (200 / 2 ^ 51)"
    by (simp add: algebra_simps)
  moreover have "N * (200 / 2 ^ 51) < 1"
  proof -
    have "N * (200 / 2 ^ 51) < 2 ^ 32 * (200 / 2 ^ 51)"
      using Nsmall by (intro mult_strict_right_mono) simp_all
    also have "\<dots> < (1::rat)"
      by simp
    finally show ?thesis .
  qed
  ultimately have lt: "2 * \<bar>N * t\<bar> < N + 1"
    by linarith
  have abs_eq: "2 * \<bar>N * t\<bar> = of_int (2 * \<bar>100 * s - K * n\<bar>)"
    by (simp add: Nt)
  have N1: "N + 1 = of_int (n + 1)" and N0: "N = of_int n"
    by (simp_all add: N_def)
  have "(of_int (2 * \<bar>100 * s - K * n\<bar>) :: rat) < of_int (n + 1)"
    using lt unfolding abs_eq N1 .
  then have "2 * \<bar>100 * s - K * n\<bar> < n + 1"
    by (simp only: of_int_less_iff)
  then have "2 * \<bar>100 * s - K * n\<bar> \<le> n"
    by simp
  then have "(of_int (2 * \<bar>100 * s - K * n\<bar>) :: rat) \<le> of_int n"
    by (simp only: of_int_le_iff)
  then have "2 * \<bar>N * t\<bar> \<le> N"
    unfolding abs_eq [symmetric] N0 [symmetric] .
  then have "N * (2 * \<bar>t\<bar>) \<le> N * 1"
    using Npos by (simp add: abs_mult)
  then have "2 * \<bar>t\<bar> \<le> 1"
    using Npos by (simp only: mult_le_cancel_left_pos)
  then show ?thesis
    unfolding t_def x_def by simp
qed

text \<open>The average the code computes from valid ratings.\<close>

lemma average_of_valid_ratings:
  assumes "rs \<noteq> []" and "\<forall>r \<in> set rs. valid_rating r" and "length rs < 2 ^ 32"
  shows "\<exists>k. nearest_hundredth (arithmetic_mean rs) k
          \<and> parseFloat (toFixed (num_div (foldl num_add (Fin 0) rs)
                (Fin (of_nat (length rs)))) 2) = rnd64 (of_int k / 100)"
proof -
  define n where "n = int (length rs)"
  have n: "1 \<le> n" "n < 2 ^ 32"
    using assms(1,3) by (simp_all add: n_def Suc_le_eq)
  have "0 + 5 * int (length rs) < 2 ^ 53"
    using n(2) by (simp add: n_def)
  with assms(2) have "\<exists>s. int (length rs) \<le> s \<and> s \<le> 5 * int (length rs)
            \<and> sum_list (map val rs) = of_int s
            \<and> foldl num_add (Fin (of_int 0)) rs = Fin (of_int (0 + s))"
    by (intro foldl_num_add_exact) simp_all
  then obtain s where s: "n \<le> s" "s \<le> 5 * n" "sum_list (map val rs) = of_int s"
    "foldl num_add (Fin 0) rs = Fin (of_int s)"
    unfolding n_def by auto
  define x :: rat where "x = of_int s / of_int n"
  have mean: "arithmetic_mean rs = x"
    by (simp add: arithmetic_mean_def s(3) x_def n_def)
  have npos: "(0::rat) < of_int n"
    using n(1) by simp
  have "(of_int n :: rat) \<le> of_int s"
    using s(1) by (simp only: of_int_le_iff)
  moreover have "(of_int s :: rat) \<le> of_int (5 * n)"
    using s(2) by (simp only: of_int_le_iff)
  ultimately have x: "1 \<le> x" "x \<le> 5"
    using npos by (simp_all add: x_def le_divide_eq divide_le_eq)
  have "s \<noteq> 0" "n \<noteq> 0"
    using s(1) n(1) by simp_all
  then have quotient: "num_div (Fin (of_int s)) (Fin (of_nat (length rs))) = rnd64 x"
    using s(1) n(1)
    by (simp add: num_div_def is_inf_def is_zero_def x_def n_def Let_def)
  from x obtain d where d: "rnd64 x = Fin d" "\<bar>d - x\<bar> \<le> 1 / 2 ^ 51"
    using rnd64_close [of x] by auto
  define K where "K = \<lfloor>d * 100 + 1 / 2\<rfloor>"
  have "(1::rat) / 2 ^ 51 \<le> 1 / 2"
    by simp
  with d(2) x have drange: "1 / 2 \<le> d" "d \<le> 6"
    by linarith+
  then have "1 \<le> d * 100 + 1 / 2"
    by linarith
  then have Kpos: "1 \<le> K"
    unfolding K_def by linarith
  have "\<not> 10 ^ 21 \<le> \<bar>d\<bar>"
    using drange by simp
  then have printed: "toFixed (Fin d) 2 = Decimal False (nat K) 2"
    using drange by (simp add: toFixed_def K_def)
  have "parseFloat (Decimal False (nat K) 2) = rnd64 (of_int K / 100)"
    using Kpos by (simp add: parseFloat_def)
  with printed quotient d(1) s(4)
  have "parseFloat (toFixed (num_div (foldl num_add (Fin 0) rs)
      (Fin (of_nat (length rs)))) 2) = rnd64 (of_int K / 100)"
    by simp
  moreover have "nearest_hundredth (arithmetic_mean rs) K"
  proof -
    have "\<bar>100 * (of_int s / of_int n) - of_int K\<bar> \<le> (1::rat) / 2"
      using n(1) n(2) d(2) [unfolded x_def] K_def by (rule hundredth_of_close_quotient)
    then show ?thesis
      by (simp add: nearest_hundredth_def mean x_def)
  qed
  ultimately show ?thesis
    by blast
qed


text \<open>The two averages the specification gives as examples.\<close>

lemma average_4_5:
  "parseFloat (toFixed (num_div (foldl num_add (Fin 0) [Fin 4, Fin 5])
      (Fin (of_nat (length [Fin 4, Fin 5])))) 2) = Fin (9 / 2)"
  by code_simp

lemma average_1_2_2:
  "parseFloat (toFixed (num_div (foldl num_add (Fin 0) [Fin 1, Fin 2, Fin 2])
      (Fin (of_nat (length [Fin 1, Fin 2, Fin 2])))) 2) = rnd64 (167 / 100)"
  by code_simp

lemma exact_mean_of_valid_ratings:
  assumes "\<forall>r \<in> set rs. valid_rating r" and "length rs < 2 ^ 32"
  shows "foldl num_add (Fin 0) rs = Fin (sum_list (map val rs))"
proof -
  have "0 + 5 * int (length rs) < 2 ^ 53"
    using assms(2) by simp
  with assms(1) have "\<exists>s. int (length rs) \<le> s \<and> s \<le> 5 * int (length rs)
            \<and> sum_list (map val rs) = of_int s
            \<and> foldl num_add (Fin (of_int 0)) rs = Fin (of_int (0 + s))"
    by (intro foldl_num_add_exact) simp_all
  then show ?thesis
    by auto
qed

section \<open>The claims\<close>

text \<open>
  Claim C1: for the id of a stored product and a rating outside the range from 1 to 5,
  \<open>rateProduct\<close> ends with the thrown error and the store is unchanged. The code does so
  for every rating that compares below 1 or above 5 (lemma
  \<open>rateProduct_throws_before_write\<close>), but not for every rating outside the range:
  not-a-number is neither at least 1 nor at most 5, and \<open>rateProduct\<close> accepts it, returns
  the product with not-a-number appended to its ratings and writes that product back.
\<close>

theorem rateProduct_accepts_NaN:
  "\<not> num_le (Fin 1) NaN \<and> \<not> num_le NaN (Fin 5)
   \<and> validateRating NaN = None
   \<and> rateProduct ''a'' NaN [''a'' \<mapsto> widget]
       = (Ok (widget\<lparr>Ratings := [Fin 4, NaN]\<rparr>), [''a'' \<mapsto> widget\<lparr>Ratings := [Fin 4, NaN]\<rparr>])"
  by (simp add: num_le_def validateRating_def num_lt_def num_gt_def rateProduct_def
      store_get_def store_insert_def widget_def Let_def)

text \<open>
  Claim C2: for an id that is not a key of the store, each of \<open>getProduct\<close>, \<open>rateProduct\<close>
  (whatever the rating), \<open>calculateAverageRating\<close>, \<open>updateProduct\<close> (whatever the
  payload) and \<open>deleteProduct\<close> returns the not-found error and leaves the store as it was.
  The message of \<open>rateProduct\<close> does not name the id; the four others do.
\<close>

theorem absent_id_not_found:
  assumes "st i = None"
  shows "getProduct i st = (Err (''Product with id='' @ i @ '' not found''), st)
       \<and> rateProduct i rating st = (Err ''Product not found.'', st)
       \<and> calculateAverageRating i st = (Err (''Product with id='' @ i @ '' not found''), st)
       \<and> updateProduct now i payload st = (Err (''Product with id='' @ i @ '' not found''), st)
       \<and> deleteProduct i st = (Err (''Product with id='' @ i @ '' not found''), st)"
proof -
  have "st(i := None) = st"
    using assms by (simp add: fun_upd_idem)
  with assms show ?thesis
    by (simp add: op_defs)
qed

text \<open>The five calls on a store that holds one product, with the id of none.\<close>

theorem absent_id_not_found_witness:
  "[''a'' \<mapsto> widget] ''b'' = None
   \<and> getProduct ''b'' [''a'' \<mapsto> widget] = (Err ''Product with id=b not found'', [''a'' \<mapsto> widget])
   \<and> rateProduct ''b'' (Fin 9) [''a'' \<mapsto> widget] = (Err ''Product not found.'', [''a'' \<mapsto> widget])
   \<and> calculateAverageRating ''b'' [''a'' \<mapsto> widget]
       = (Err ''Product with id=b not found'', [''a'' \<mapsto> widget])
   \<and> updateProduct 8 ''b'' gadget_payload [''a'' \<mapsto> widget]
       = (Err ''Product with id=b not found'', [''a'' \<mapsto> widget])
   \<and> deleteProduct ''b'' [''a'' \<mapsto> widget]
       = (Err ''Product with id=b not found'', [''a'' \<mapsto> widget])"
proof -
  have absent: "[''a'' \<mapsto> widget] ''b'' = None"
    by simp
  show ?thesis
    using absent absent_id_not_found [where st = "[''a'' \<mapsto> widget]" and i = "''b''"
        and rating = "Fin 9" and now = 8 and payload = gadget_payload]
    by simp
qed

text \<open>
  Claim C3: for a payload whose name, description and URL are all non-empty, \<open>addProduct\<close>
  succeeds, returns a product with no ratings, no \<open>updated_at\<close> and the time of the call
  as \<open>created_at\<close>, and stores exactly that record under its id. The code does not: it
  asks \<open>uuidv4\<close> for the id before anything else, the call goes through the function that
  calls itself and does not return, and the store is left as it was (for every such
  payload, lemma \<open>addProduct_never_returns\<close>).
\<close>

theorem addProduct_valid_payload_no_return:
  "name widget_payload \<noteq> [] \<and> description widget_payload \<noteq> [] \<and> URL widget_payload \<noteq> []
   \<and> uuidv4 spell_bytes = None
   \<and> addProduct spell_bytes 7 widget_payload Map.empty = (NoReturn, Map.empty)
   \<and> getProduct ''a'' (snd (addProduct spell_bytes 7 widget_payload Map.empty))
       = (Err ''Product with id=a not found'', Map.empty)"
  by (simp add: addProduct_def uuidv4_never_returns getProduct_def store_get_def
      widget_payload_def)

text \<open>
  Claim C4, as amended: for the id of a stored product, \<open>calculateAverageRating\<close> leaves
  the store unchanged and returns 0 when the product has no ratings. When the ratings are
  non-empty, each of them an integer from 1 to 5 as the data model has them (and fewer
  than \<open>2 ^ 32\<close>, as the elements of every array of the source language are), it returns
  the mean rounded to 2 decimal places: the binary64 value nearest to \<open>k / 100\<close>, where
  \<open>k\<close> is an integer nearest to 100 times the mean, either of the two such integers when
  the mean lies half-way between two hundredths. The ratings 4, 5 give 4.5 and the
  ratings 1, 2, 2 give the binary64 value nearest to 1.67.
\<close>

theorem calculateAverageRating_rounds_mean:
  assumes "st i = Some product"
  shows "snd (calculateAverageRating i st) = st
       \<and> (Ratings product = [] \<longrightarrow> fst (calculateAverageRating i st) = Ok (Fin 0))
       \<and> (Ratings product \<noteq> [] \<and> (\<forall>r \<in> set (Ratings product). valid_rating r)
            \<and> length (Ratings product) < 2 ^ 32
          \<longrightarrow> (\<exists>k. nearest_hundredth (arithmetic_mean (Ratings product)) k
                 \<and> fst (calculateAverageRating i st) = Ok (rnd64 (of_int k / 100))))
       \<and> (Ratings product = [Fin 4, Fin 5]
          \<longrightarrow> fst (calculateAverageRating i st) = Ok (Fin (9 / 2)))
       \<and> (Ratings product = [Fin 1, Fin 2, Fin 2]
          \<longrightarrow> fst (calculateAverageRating i st) = Ok (rnd64 (167 / 100)))"
proof -
  have result: "calculateAverageRating i st =
      (if Ratings product = [] then Ok (Fin 0)
       else Ok (parseFloat (toFixed (num_div (foldl num_add (Fin 0) (Ratings product))
              (Fin (of_nat (length (Ratings product))))) 2)), st)"
    using assms by (simp add: calculateAverageRating_def store_get_def Let_def)
  have unchanged: "snd (calculateAverageRating i st) = st"
    by (simp add: result)
  have empty: "Ratings product = [] \<longrightarrow> fst (calculateAverageRating i st) = Ok (Fin 0)"
    by (simp add: result)
  have mean: "Ratings product \<noteq> [] \<and> (\<forall>r \<in> set (Ratings product). valid_rating r)
        \<and> length (Ratings product) < 2 ^ 32
      \<longrightarrow> (\<exists>k. nearest_hundredth (arithmetic_mean (Ratings product)) k
             \<and> fst (calculateAverageRating i st) = Ok (rnd64 (of_int k / 100)))"
    using average_of_valid_ratings [of "Ratings product"] by (auto simp: result)
  have four_five: "Ratings product = [Fin 4, Fin 5]
      \<longrightarrow> fst (calculateAverageRating i st) = Ok (Fin (9 / 2))"
    using average_4_5 by (simp add: result)
  have one_two_two: "Ratings product = [Fin 1, Fin 2, Fin 2]
      \<longrightarrow> fst (calculateAverageRating i st) = Ok (rnd64 (167 / 100))"
    using average_1_2_2 by (simp add: result)
  from unchanged empty mean four_five one_two_two show ?thesis
    by (intro conjI)
qed

text \<open>The averages of the ratings 1, 2, 2, of the ratings 4, 5 and of no ratings.\<close>

theorem calculateAverageRating_rounds_mean_witness:
  "[''a'' \<mapsto> widget\<lparr>Ratings := [Fin 1, Fin 2, Fin 2]\<rparr>] ''a''
     = Some (widget\<lparr>Ratings := [Fin 1, Fin 2, Fin 2]\<rparr>)
   \<and> valid_rating (Fin 1) \<and> valid_rating (Fin 2) \<and> length [Fin 1, Fin 2, Fin 2] < (2::nat) ^ 32
   \<and> calculateAverageRating ''a'' [''a'' \<mapsto> widget\<lparr>Ratings := [Fin 1, Fin 2, Fin 2]\<rparr>]
     = (Ok (Fin (940126422213591 / 562949953421312)),
        [''a'' \<mapsto> widget\<lparr>Ratings := [Fin 1, Fin 2, Fin 2]\<rparr>])
   \<and> rnd64 (167 / 100) = Fin (940126422213591 / 562949953421312)
   \<and> nearest_hundredth (arithmetic_mean [Fin 1, Fin 2, Fin 2]) 167
   \<and> calculateAverageRating ''a'' [''a'' \<mapsto> widget\<lparr>Ratings := [Fin 4, Fin 5]\<rparr>]
     = (Ok (Fin (9 / 2)), [''a'' \<mapsto> widget\<lparr>Ratings := [Fin 4, Fin 5]\<rparr>])
   \<and> calculateAverageRating ''a'' [''a'' \<mapsto> widget\<lparr>Ratings := []\<rparr>]
     = (Ok (Fin 0), [''a'' \<mapsto> widget\<lparr>Ratings := []\<rparr>])"
proof -
  let ?p = "widget\<lparr>Ratings := [Fin 1, Fin 2, Fin 2]\<rparr>"
  let ?q = "widget\<lparr>Ratings := [Fin 4, Fin 5]\<rparr>"
  let ?r = "widget\<lparr>Ratings := []\<rparr>"
  have stored: "[''a'' \<mapsto> ?p] ''a'' = Some ?p" "[''a'' \<mapsto> ?q] ''a'' = Some ?q"
    "[''a'' \<mapsto> ?r] ''a'' = Some ?r"
    by simp_all
  have valid: "valid_rating (Fin 1)" "valid_rating (Fin 2)"
    by (simp_all add: valid_rating_def)
  have short: "length [Fin 1, Fin 2, Fin 2] < (2::nat) ^ 32"
    by simp
  have exact: "rnd64 (167 / 100) = Fin (940126422213591 / 562949953421312)"
    by code_simp
  have near: "nearest_hundredth (arithmetic_mean [Fin 1, Fin 2, Fin 2]) 167"
    by code_simp
  show ?thesis
    using stored valid short exact near
      calculateAverageRating_rounds_mean [where st = "[''a'' \<mapsto> ?p]" and i = "''a''"
        and product = ?p]
      calculateAverageRating_rounds_mean [where st = "[''a'' \<mapsto> ?q]" and i = "''a''"
        and product = ?q]
      calculateAverageRating_rounds_mean [where st = "[''a'' \<mapsto> ?r]" and i = "''a''"
        and product = ?r]
    by (simp add: prod_eq_iff)
qed

text \<open>
  Claim C4, as stated, has the mean rounded to 2 decimal places, which fixes one result
  for a mean that lies half-way between two hundredths. The code follows no such rule.
  Seven ratings of 1 and one of 2 have the mean 1.125, a binary64 value, and the code
  returns 1.13: the half goes up. Thirty-nine ratings of 1 and one of 2 have the mean
  1.025; the binary64 value nearest to it lies below it, and the code returns 1.02: the
  half goes down. A rule that rounds a half up, or to the odd hundredth, fails on the
  second product, and a rule that rounds a half down, or to the even hundredth, on the
  first.
\<close>

theorem average_ties_go_either_way:
  "arithmetic_mean (replicate 7 (Fin 1) @ [Fin 2]) = 1125 / 1000
   \<and> fst (calculateAverageRating ''a''
        [''a'' \<mapsto> widget\<lparr>Ratings := replicate 7 (Fin 1) @ [Fin 2]\<rparr>]) = Ok (rnd64 (113 / 100))
   \<and> arithmetic_mean (replicate 39 (Fin 1) @ [Fin 2]) = 1025 / 1000
   \<and> fst (calculateAverageRating ''a''
        [''a'' \<mapsto> widget\<lparr>Ratings := replicate 39 (Fin 1) @ [Fin 2]\<rparr>]) = Ok (rnd64 (102 / 100))
   \<and> rnd64 (113 / 100) \<noteq> rnd64 (112 / 100) \<and> rnd64 (102 / 100) \<noteq> rnd64 (103 / 100)"
proof -
  have valid: "\<forall>r \<in> set (replicate n (Fin 1) @ [Fin 2]). valid_rating r" for n
    by (auto simp: valid_rating_def)
  have "foldl num_add (Fin 0) (replicate 7 (Fin 1) @ [Fin 2]) = Fin 9"
    by (subst exact_mean_of_valid_ratings [OF valid]) (simp_all add: sum_list_replicate)
  moreover have "parseFloat (toFixed (num_div (Fin 9) (Fin (of_nat 8))) 2) = rnd64 (113 / 100)"
    by code_simp
  ultimately have up: "fst (calculateAverageRating ''a''
      [''a'' \<mapsto> widget\<lparr>Ratings := replicate 7 (Fin 1) @ [Fin 2]\<rparr>]) = Ok (rnd64 (113 / 100))"
    by (simp add: calculateAverageRating_def store_get_def Let_def)
  have "foldl num_add (Fin 0) (replicate 39 (Fin 1) @ [Fin 2]) = Fin 41"
    by (subst exact_mean_of_valid_ratings [OF valid]) (simp_all add: sum_list_replicate)
  moreover have "parseFloat (toFixed (num_div (Fin 41) (Fin (of_nat 40))) 2) = rnd64 (102 / 100)"
    by code_simp
  ultimately have down: "fst (calculateAverageRating ''a''
      [''a'' \<mapsto> widget\<lparr>Ratings := replicate 39 (Fin 1) @ [Fin 2]\<rparr>]) = Ok (rnd64 (102 / 100))"
    by (simp add: calculateAverageRating_def store_get_def Let_def)
  have "arithmetic_mean (replicate 7 (Fin 1) @ [Fin 2]) = 1125 / 1000"
    "arithmetic_mean (replicate 39 (Fin 1) @ [Fin 2]) = 1025 / 1000"
    by (simp_all add: arithmetic_mean_def sum_list_replicate)
  moreover have "rnd64 (113 / 100) \<noteq> rnd64 (112 / 100)"
    "rnd64 (102 / 100) \<noteq> rnd64 (103 / 100)"
    by code_simp+
  ultimately show ?thesis
    using up down by simp
qed


text \<open>
  Claim C6: for the id of a stored product and a rating \<open>r\<close> with \<open>1 <= r\<close> and \<open>r <= 5\<close>,
  \<open>rateProduct\<close> succeeds; the record it returns is the one written back under the same id,
  its ratings are the old ones followed by the new rating, and its other fields are those
  of the old record.
\<close>

theorem rateProduct_appends_rating:
  assumes "st i = Some product" and "num_le (Fin 1) rating" and "num_le rating (Fin 5)"
  shows "let updatedProduct = product\<lparr>Ratings := Ratings product @ [rating]\<rparr>
         in rateProduct i rating st = (Ok updatedProduct, st(i \<mapsto> updatedProduct))
          \<and> id_field updatedProduct = id_field product
          \<and> name updatedProduct = name product
          \<and> description updatedProduct = description product
          \<and> URL updatedProduct = URL product
          \<and> created_at updatedProduct = created_at product
          \<and> updated_at updatedProduct = updated_at product"
  using assms
  by (cases rating) (simp_all add: rateProduct_def store_get_def store_insert_def
      validateRating_cases num_le_1_iff num_le_5_iff Let_def)

text \<open>Rating a product that has one rating with a 3.\<close>

theorem rateProduct_appends_rating_witness:
  "[''a'' \<mapsto> widget] ''a'' = Some widget \<and> num_le (Fin 1) (Fin 3) \<and> num_le (Fin 3) (Fin 5)
   \<and> rateProduct ''a'' (Fin 3) [''a'' \<mapsto> widget]
       = (Ok (widget\<lparr>Ratings := [Fin 4, Fin 3]\<rparr>), [''a'' \<mapsto> widget\<lparr>Ratings := [Fin 4, Fin 3]\<rparr>])"
proof -
  have stored: "[''a'' \<mapsto> widget] ''a'' = Some widget"
    by simp
  have lo: "num_le (Fin 1) (Fin 3)" and hi: "num_le (Fin 3) (Fin 5)"
    by (simp_all add: num_le_def)
  show ?thesis
    using stored lo hi
      rateProduct_appends_rating [where st = "[''a'' \<mapsto> widget]" and i = "''a''"
        and product = widget and rating = "Fin 3"]
    by (simp add: widget_def Let_def)
qed

text \<open>
  Claim C7: for the id of a stored product and any payload, \<open>updateProduct\<close> returns the
  record with the name, description and URL of the payload and the time of the call as
  \<open>updated_at\<close>, its id, \<open>created_at\<close> and ratings being those of the old record; that
  record is written back under the id, and no other key of the store changes. The product
  is stored under its own \<open>id\<close>, as every operation keeps it (lemmas
  \<open>addProduct_keyed_by_id\<close> to \<open>reachable_keyed_by_id\<close>): \<open>updateProduct\<close> writes under
  the \<open>id\<close> field of the record it has read.
\<close>

theorem updateProduct_overlays_payload:
  assumes "st i = Some product" and "id_field product = i"
  shows "let updatedProduct = product\<lparr>name := name payload, description := description payload,
                                       URL := URL payload, updated_at := Some now\<rparr>
         in updateProduct now i payload st = (Ok updatedProduct, st(i \<mapsto> updatedProduct))
          \<and> name updatedProduct = name payload
          \<and> description updatedProduct = description payload
          \<and> URL updatedProduct = URL payload
          \<and> updated_at updatedProduct = Some now
          \<and> id_field updatedProduct = id_field product
          \<and> created_at updatedProduct = created_at product
          \<and> Ratings updatedProduct = Ratings product
          \<and> (\<forall>k. k \<noteq> i \<longrightarrow> snd (updateProduct now i payload st) k = st k)"
  using assms by (simp add: updateProduct_def store_get_def store_insert_def Let_def)

text \<open>Updating one of two stored products.\<close>

theorem updateProduct_overlays_payload_witness:
  "[''a'' \<mapsto> widget, ''b'' \<mapsto> widget\<lparr>id_field := ''b''\<rparr>] ''a'' = Some widget
   \<and> id_field widget = ''a''
   \<and> updateProduct 9 ''a'' gadget_payload [''a'' \<mapsto> widget, ''b'' \<mapsto> widget\<lparr>id_field := ''b''\<rparr>]
       = (Ok \<lparr>name = ''Gadget'', description = [], URL = ''http://g.example'',
               id_field = ''a'', Ratings = [Fin 4], created_at = 7, updated_at = Some 9\<rparr>,
          [''a'' \<mapsto> \<lparr>name = ''Gadget'', description = [], URL = ''http://g.example'',
               id_field = ''a'', Ratings = [Fin 4], created_at = 7, updated_at = Some 9\<rparr>,
           ''b'' \<mapsto> widget\<lparr>id_field := ''b''\<rparr>])
   \<and> snd (updateProduct 9 ''a'' gadget_payload
         [''a'' \<mapsto> widget, ''b'' \<mapsto> widget\<lparr>id_field := ''b''\<rparr>]) ''b''
       = Some (widget\<lparr>id_field := ''b''\<rparr>)"
proof -
  have stored: "[''a'' \<mapsto> widget, ''b'' \<mapsto> widget\<lparr>id_field := ''b''\<rparr>] ''a'' = Some widget"
    by simp
  have own: "id_field widget = ''a''"
    by (simp add: widget_def)
  show ?thesis
    using stored own
      updateProduct_overlays_payload [where i = "''a''" and product = widget
        and st = "[''a'' \<mapsto> widget, ''b'' \<mapsto> widget\<lparr>id_field := ''b''\<rparr>]"
        and payload = gadget_payload and now = 9]
    by (simp add: op_defs sample_defs Let_def fun_upd_twist)
qed

text \<open>
  Claim C8: for a payload whose name, description or URL is empty, \<open>addProduct\<close> returns the
  error for missing fields and the store after the call is the store before it.
\<close>

theorem addProduct_rejects_empty_field:
  assumes "name payload = [] \<or> description payload = [] \<or> URL payload = []"
  shows "addProduct spell now payload st = (Err ''Missing required fields'', st)"
  using assms by (auto simp: addProduct_def)

text \<open>A payload with an empty description.\<close>

theorem addProduct_rejects_empty_field_witness:
  "(name gadget_payload = [] \<or> description gadget_payload = [] \<or> URL gadget_payload = [])
   \<and> addProduct spell_bytes 8 gadget_payload [''a'' \<mapsto> widget]
       = (Err ''Missing required fields'', [''a'' \<mapsto> widget])"
proof -
  have empty: "name gadget_payload = [] \<or> description gadget_payload = []
      \<or> URL gadget_payload = []"
    by (simp add: gadget_payload_def)
  show ?thesis
    using empty addProduct_rejects_empty_field [OF empty] by simp
qed

text \<open>
  Claim C9: for the id of a stored product, \<open>deleteProduct\<close> returns the record stored under
  the id and removes the key; \<open>getProduct\<close> with the id then returns the not-found error,
  and so does a second \<open>deleteProduct\<close>.
\<close>

theorem deleteProduct_removes_key:
  assumes "st i = Some product"
  shows "deleteProduct i st = (Ok product, st(i := None))
       \<and> getProduct i (snd (deleteProduct i st))
           = (Err (''Product with id='' @ i @ '' not found''), st(i := None))
       \<and> deleteProduct i (snd (deleteProduct i st))
           = (Err (''Product with id='' @ i @ '' not found''), st(i := None))"
  using assms by (simp add: op_defs)

text \<open>Deleting the only product of a store.\<close>

theorem deleteProduct_removes_key_witness:
  "[''a'' \<mapsto> widget] ''a'' = Some widget
   \<and> deleteProduct ''a'' [''a'' \<mapsto> widget] = (Ok widget, Map.empty)
   \<and> getProduct ''a'' (snd (deleteProduct ''a'' [''a'' \<mapsto> widget]))
       = (Err ''Product with id=a not found'', Map.empty)
   \<and> deleteProduct ''a'' (snd (deleteProduct ''a'' [''a'' \<mapsto> widget]))
       = (Err ''Product with id=a not found'', Map.empty)"
proof -
  have stored: "[''a'' \<mapsto> widget] ''a'' = Some widget"
    by simp
  show ?thesis
    using stored
      deleteProduct_removes_key [where st = "[''a'' \<mapsto> widget]" and i = "''a''"
        and product = widget]
    by (simp add: op_defs)
qed

text \<open>
  Claim C10: \<open>validateRating\<close> throws exactly when the rating compares below 1 or above 5.
  So for the id of a stored product, \<open>rateProduct\<close> succeeds and appends the rating when it
  is a finite value from 1 to 5 that is not an integer, and also when it is not-a-number,
  for which both comparisons are false.
\<close>

theorem validateRating_only_compares:
  "(validateRating rating = Some ''Rating should be an integer between 1 and 5.''
      \<longleftrightarrow> num_lt rating (Fin 1) \<or> num_gt rating (Fin 5))
   \<and> (validateRating rating = None
      \<longleftrightarrow> \<not> num_lt rating (Fin 1) \<and> \<not> num_gt rating (Fin 5))
   \<and> (st i = Some product \<longrightarrow> 1 \<le> x \<and> x \<le> 5 \<and> of_int \<lfloor>x\<rfloor> \<noteq> x
        \<longrightarrow> rateProduct i (Fin x) st
             = (Ok (product\<lparr>Ratings := Ratings product @ [Fin x]\<rparr>),
                st(i \<mapsto> product\<lparr>Ratings := Ratings product @ [Fin x]\<rparr>)))
   \<and> \<not> num_lt NaN (Fin 1) \<and> \<not> num_gt NaN (Fin 5)
   \<and> (st i = Some product
        \<longrightarrow> rateProduct i NaN st
             = (Ok (product\<lparr>Ratings := Ratings product @ [NaN]\<rparr>),
                st(i \<mapsto> product\<lparr>Ratings := Ratings product @ [NaN]\<rparr>)))"
  by (simp add: validateRating_def rateProduct_def store_get_def store_insert_def
      num_lt_def num_gt_def Let_def)

text \<open>The ratings 2.5 and not-a-number, on a stored product.\<close>

theorem validateRating_only_compares_witness:
  "[''a'' \<mapsto> widget] ''a'' = Some widget
   \<and> (1::rat) \<le> 5 / 2 \<and> (5 / 2 :: rat) \<le> 5 \<and> of_int \<lfloor>5 / 2 :: rat\<rfloor> \<noteq> (5 / 2 :: rat)
   \<and> rateProduct ''a'' (Fin (5 / 2)) [''a'' \<mapsto> widget]
       = (Ok (widget\<lparr>Ratings := [Fin 4, Fin (5 / 2)]\<rparr>),
          [''a'' \<mapsto> widget\<lparr>Ratings := [Fin 4, Fin (5 / 2)]\<rparr>])
   \<and> rateProduct ''a'' NaN [''a'' \<mapsto> widget]
       = (Ok (widget\<lparr>Ratings := [Fin 4, NaN]\<rparr>), [''a'' \<mapsto> widget\<lparr>Ratings := [Fin 4, NaN]\<rparr>])"
proof -
  have stored: "[''a'' \<mapsto> widget] ''a'' = Some widget"
    by simp
  have frac: "(1::rat) \<le> 5 / 2 \<and> (5 / 2 :: rat) \<le> 5 \<and> of_int \<lfloor>5 / 2 :: rat\<rfloor> \<noteq> (5 / 2 :: rat)"
    by code_simp
  show ?thesis
    using stored frac
      validateRating_only_compares [where rating = NaN and st = "[''a'' \<mapsto> widget]"
        and i = "''a''" and product = widget and x = "5 / 2"]
    by (simp add: widget_def)
qed

end
